theory Spec2Isabelle
  imports Main
begin

text \<open>
  A model of Commit Critic: the git tools of \<open>tools.py\<close>, the thread store of
  \<open>commit_critic_agent.py\<close>, and the write-mode approval workflow and the entry point
  of \<open>cli.py\<close>. Definitions come first, the facts proved about them after.
\<close>

section \<open>Python strings\<close>

text \<open>
  A Python \<open>str\<close> is modelled as a HOL \<open>string\<close>, one \<open>char\<close> per code point, so the
  model covers the code points 0 to 255 (ASCII and Latin-1). On that range
  \<open>py_isspace\<close> is \<open>str.isspace\<close> of one character (the characters \<open>str.strip()\<close>
  removes) and \<open>py_lower\<close> is \<open>str.lower()\<close>.
\<close>

definition py_isspace :: "char \<Rightarrow> bool" where
  "py_isspace c = (let n = (of_char c :: nat) in
     (9 \<le> n \<and> n \<le> 13) \<or> (28 \<le> n \<and> n \<le> 32) \<or> n = 133 \<or> n = 160)"

definition py_strip :: "string \<Rightarrow> string" where
  "py_strip s = rev (dropWhile py_isspace (rev (dropWhile py_isspace s)))"

definition lower_table :: "(char \<times> char) list" where
  "lower_table =
     zip ''ABCDEFGHIJKLMNOPQRSTUVWXYZ'' ''abcdefghijklmnopqrstuvwxyz'' @
     zip [CHR 0xC0, CHR 0xC1, CHR 0xC2, CHR 0xC3, CHR 0xC4, CHR 0xC5, CHR 0xC6, CHR 0xC7,
          CHR 0xC8, CHR 0xC9, CHR 0xCA, CHR 0xCB, CHR 0xCC, CHR 0xCD, CHR 0xCE, CHR 0xCF,
          CHR 0xD0, CHR 0xD1, CHR 0xD2, CHR 0xD3, CHR 0xD4, CHR 0xD5, CHR 0xD6,
          CHR 0xD8, CHR 0xD9, CHR 0xDA, CHR 0xDB, CHR 0xDC, CHR 0xDD, CHR 0xDE]
         [CHR 0xE0, CHR 0xE1, CHR 0xE2, CHR 0xE3, CHR 0xE4, CHR 0xE5, CHR 0xE6, CHR 0xE7,
          CHR 0xE8, CHR 0xE9, CHR 0xEA, CHR 0xEB, CHR 0xEC, CHR 0xED, CHR 0xEE, CHR 0xEF,
          CHR 0xF0, CHR 0xF1, CHR 0xF2, CHR 0xF3, CHR 0xF4, CHR 0xF5, CHR 0xF6,
          CHR 0xF8, CHR 0xF9, CHR 0xFA, CHR 0xFB, CHR 0xFC, CHR 0xFD, CHR 0xFE]"

definition py_lower_char :: "char \<Rightarrow> char" where
  "py_lower_char c = (case map_of lower_table c of Some l \<Rightarrow> l | None \<Rightarrow> c)"

definition py_lower :: "string \<Rightarrow> string" where
  "py_lower s = map py_lower_char s"

text \<open>\<open>s.startswith(p)\<close>.\<close>

definition startswith :: "string \<Rightarrow> string \<Rightarrow> bool" where
  "startswith s p = (take (length p) s = p)"

text \<open>\<open>s.split(sep)\<close> for a one-character separator: \<open>"".split(sep)\<close> is \<open>[""]\<close>.\<close>

fun split_on :: "char \<Rightarrow> string \<Rightarrow> string list" where
  "split_on sep [] = [[]]"
| "split_on sep (c # cs) =
     (if c = sep then [] # split_on sep cs
      else (case split_on sep cs of [] \<Rightarrow> [[c]] | p # ps \<Rightarrow> (c # p) # ps))"

text \<open>\<open>str(n)\<close> of an integer, as an f-string renders it.\<close>

fun py_str_nat :: "nat \<Rightarrow> string" where
  "py_str_nat n = (if n < 10 then [''0123456789'' ! n]
                   else py_str_nat (n div 10) @ [''0123456789'' ! (n mod 10)])"

declare py_str_nat.simps [simp del]

definition py_str_int :: "int \<Rightarrow> string" where
  "py_str_int i = (if i < 0 then ''-'' @ py_str_nat (nat (- i)) else py_str_nat (nat i))"

definition NUL :: char where "NUL = CHR 0x00"
definition US :: char where "US = CHR 0x1F"
definition LF :: char where "LF = CHR 0x0A"

section \<open>JSON values and subprocesses\<close>

text \<open>
  Every tool returns \<open>json.dumps\<close> of a dict or a list; the model returns the value
  that is serialised. A dict is an association list in insertion order.
\<close>

datatype json =
    JNull
  | JBool bool
  | JInt int
  | JStr string
  | JArr "json list"
  | JObj "(string \<times> json) list"

text \<open>
  The external \<open>git\<close> program is a parameter: what one invocation with the given
  argument vector does. \<open>Exited rc out err\<close> is a process that ran and ended with return
  code \<open>rc\<close>; \<open>TimedOut\<close> and \<open>Failed\<close> are \<open>subprocess.run\<close> raising
  \<open>TimeoutExpired\<close> or another exception such as \<open>FileNotFoundError\<close>, each with
  the text \<open>str(e)\<close>.
\<close>

datatype proc_result = Exited int string string | TimedOut string | Failed string

type_synonym git = "string list \<Rightarrow> proc_result"

datatype run_error = CalledProcessError string | TimeoutExpired string | OtherException string

text \<open>\<open>subprocess.run(argv, capture_output=True, text=True, check=True).stdout\<close>.\<close>

definition subprocess_run :: "git \<Rightarrow> string list \<Rightarrow> run_error + string" where
  "subprocess_run git argv =
     (case git argv of
        Exited rc out err \<Rightarrow> if rc = 0 then Inr out else Inl (CalledProcessError err)
      | TimedOut e \<Rightarrow> Inl (TimeoutExpired e)
      | Failed e \<Rightarrow> Inl (OtherException e))"

text \<open>What a tool does to the outside world, in order.\<close>

datatype effect = Spawn "string list" | Mkdtemp string

section \<open>Git tools (tools.py)\<close>

subsection \<open>get_commits_tool\<close>

definition git_log_argv :: "string \<Rightarrow> int \<Rightarrow> string list" where
  "git_log_argv repo_path limit =
     [''git'', ''-C'', repo_path, ''log'', ''-n'' @ py_str_int limit,
      ''--format=%H%x1f%s%x1f%b%x00'']"

text \<open>The body of the loop over \<open>result.stdout.split('\x00')\<close>: no or one commit per entry.\<close>

definition parse_entry :: "string \<Rightarrow> json list" where
  "parse_entry entry0 =
     (let entry = py_strip entry0 in
      if entry = [] then []
      else
        let parts = split_on US entry in
        if length parts \<ge> 2 then
          [JObj [(''hash'', JStr (take 8 (parts ! 0))),
                 (''message'', JStr (py_strip (parts ! 1))),
                 (''body'', JStr (if length parts > 2 then py_strip (parts ! 2) else []))]]
        else [])"

definition get_commits_tool :: "git \<Rightarrow> string \<Rightarrow> int \<Rightarrow> json \<times> effect list" where
  "get_commits_tool git repo_path limit0 =
     (let limit = max 1 (min limit0 500);
          argv = git_log_argv repo_path limit
      in case subprocess_run git argv of
           Inr out \<Rightarrow> (JArr (concat (map parse_entry (split_on NUL out))), [Spawn argv])
         | Inl (CalledProcessError err) \<Rightarrow>
             (JObj [(''error'', JStr (''Failed to fetch commits: '' @ err)),
                    (''commits'', JArr [])], [Spawn argv])
         | Inl (TimeoutExpired e) \<Rightarrow>
             (JObj [(''error'', JStr (''Unexpected error: '' @ e)),
                    (''commits'', JArr [])], [Spawn argv])
         | Inl (OtherException e) \<Rightarrow>
             (JObj [(''error'', JStr (''Unexpected error: '' @ e)),
                    (''commits'', JArr [])], [Spawn argv]))"

text \<open>The commits a result of \<open>get_commits_tool\<close> carries: the list, or the \<open>commits\<close> key.\<close>

definition returned_commits :: "json \<Rightarrow> json list" where
  "returned_commits j =
     (case j of
        JArr xs \<Rightarrow> xs
      | JObj kv \<Rightarrow> (case map_of kv ''commits'' of Some (JArr xs) \<Rightarrow> xs | _ \<Rightarrow> [])
      | _ \<Rightarrow> [])"

text \<open>
  What \<open>git log --format=%H%x1f%s%x1f%b%x00\<close> prints for a list of commits, newest
  first: per commit the hash, the subject and the body, separated by 0x1F, ended by
  0x00, and the line feed \<open>git log\<close> puts after each record.
\<close>

record commit =
  sha :: string
  subject :: string
  body_text :: string

definition git_log_record :: "commit \<Rightarrow> string" where
  "git_log_record c = sha c @ [US] @ subject c @ [US] @ body_text c @ [NUL, LF]"

definition git_log_output :: "commit list \<Rightarrow> string" where
  "git_log_output cs = concat (map git_log_record cs)"

definition nul_free :: "commit \<Rightarrow> bool" where
  "nul_free c = (NUL \<notin> set (sha c) \<and> NUL \<notin> set (subject c) \<and> NUL \<notin> set (body_text c))"

subsection \<open>clone_repo_tool\<close>

definition allowed_scheme :: "string \<Rightarrow> bool" where
  "allowed_scheme url =
     (startswith url ''https://'' \<or> startswith url ''http://'' \<or>
      startswith url ''git://'' \<or> startswith url ''git@'')"

definition clone_failure :: "string \<Rightarrow> json" where
  "clone_failure e = JObj [(''success'', JBool False), (''repo_path'', JNull), (''error'', JStr e)]"

text \<open>
  \<open>mkdtemp\<close> is the outcome of \<open>tempfile.mkdtemp(prefix="commit_critic_")\<close>: the new
  directory, or \<open>Inl\<close> the text of the exception it raised.
\<close>

definition clone_repo_tool :: "git \<Rightarrow> string + string \<Rightarrow> string \<Rightarrow> json \<times> effect list" where
  "clone_repo_tool git mkdtemp url0 =
     (let url = py_strip url0 in
      if url = [] then (clone_failure ''Empty URL provided'', [])
      else if \<not> allowed_scheme url then
        (clone_failure ''Invalid URL protocol. Use https://, http://, git://, or git@ URLs'', [])
      else
        (case mkdtemp of
           Inl e \<Rightarrow> (clone_failure (''Unexpected error: '' @ e), [])
         | Inr temp_dir \<Rightarrow>
             (let argv = [''git'', ''clone'', ''--depth=50'', url, temp_dir];
                  effects = [Mkdtemp temp_dir, Spawn argv]
              in case subprocess_run git argv of
                   Inr out \<Rightarrow>
                     (JObj [(''success'', JBool True), (''repo_path'', JStr temp_dir),
                            (''message'',
                             JStr (''Successfully cloned '' @ url @ '' to '' @ temp_dir))],
                      effects)
                 | Inl (TimeoutExpired e) \<Rightarrow>
                     (clone_failure
                        ''Clone timed out after 60 seconds. Repository may be too large or network is slow.'',
                      effects)
                 | Inl (CalledProcessError err) \<Rightarrow>
                     (clone_failure (''Clone failed: '' @ err), effects)
                 | Inl (OtherException e) \<Rightarrow>
                     (clone_failure (''Unexpected error: '' @ e), effects))))"

subsection \<open>get_staged_diff_tool\<close>

definition staged_failure :: "run_error \<Rightarrow> json" where
  "staged_failure e =
     (case e of
        CalledProcessError err \<Rightarrow>
          JObj [(''has_staged'', JBool False),
                (''error'', JStr (''Failed to get staged changes: '' @ err))]
      | TimeoutExpired m \<Rightarrow>
          JObj [(''has_staged'', JBool False), (''error'', JStr (''Unexpected error: '' @ m))]
      | OtherException m \<Rightarrow>
          JObj [(''has_staged'', JBool False), (''error'', JStr (''Unexpected error: '' @ m))])"

definition get_staged_diff_tool :: "git \<Rightarrow> string \<Rightarrow> json \<times> effect list" where
  \<open>get_staged_diff_tool git repo_path =
     (let stat_argv = [''git'', ''-C'', repo_path, ''diff'', ''--staged'', ''--stat''];
          diff_argv = [''git'', ''-C'', repo_path, ''diff'', ''--staged''];
          files_argv = [''git'', ''-C'', repo_path, ''diff'', ''--staged'', ''--name-only'']
      in case subprocess_run git stat_argv of
           Inl e \<Rightarrow> (staged_failure e, [Spawn stat_argv])
         | Inr stat_out \<Rightarrow>
        (case subprocess_run git diff_argv of
           Inl e \<Rightarrow> (staged_failure e, [Spawn stat_argv, Spawn diff_argv])
         | Inr diff_out \<Rightarrow>
        (case subprocess_run git files_argv of
           Inl e \<Rightarrow> (staged_failure e, [Spawn stat_argv, Spawn diff_argv, Spawn files_argv])
         | Inr files_out \<Rightarrow>
             (let files = filter (\<lambda>f. f \<noteq> []) (split_on LF (py_strip files_out));
                  effects = [Spawn stat_argv, Spawn diff_argv, Spawn files_argv]
              in if files = [] then
                   (JObj [(''has_staged'', JBool False),
                          (''message'',
                           JStr ''No staged changes found. Stage files with 'git add' first.'')],
                    effects)
                 else
                   (JObj [(''has_staged'', JBool True),
                          (''stat'', JStr stat_out),
                          (''diff'', JStr (take 5000 diff_out)),
                          (''files'', JArr (map JStr files)),
                          (''file_count'', JInt (int (length files)))],
                    effects)))))\<close>

subsection \<open>create_commit_tool\<close>

definition create_commit_tool :: "git \<Rightarrow> string \<Rightarrow> string \<Rightarrow> json \<times> effect list" where
  "create_commit_tool git message0 repo_path =
     (let message = (if message0 \<noteq> [] then py_strip message0 else []) in
      if message = [] then
        (JObj [(''success'', JBool False), (''error'', JStr ''Empty commit message provided'')],
         [])
      else
        (let argv = [''git'', ''-C'', repo_path, ''commit'', ''-m'', message] in
         case subprocess_run git argv of
           Inr out \<Rightarrow>
             (JObj [(''success'', JBool True), (''output'', JStr out),
                    (''message'',
                     JStr (''Successfully committed: '' @ take 50 message @ ''...''))],
              [Spawn argv])
         | Inl (CalledProcessError err) \<Rightarrow>
             (JObj [(''success'', JBool False), (''error'', JStr (''Commit failed: '' @ err))],
              [Spawn argv])
         | Inl (TimeoutExpired e) \<Rightarrow>
             (JObj [(''success'', JBool False), (''error'', JStr (''Unexpected error: '' @ e))],
              [Spawn argv])
         | Inl (OtherException e) \<Rightarrow>
             (JObj [(''success'', JBool False), (''error'', JStr (''Unexpected error: '' @ e))],
              [Spawn argv])))"

text \<open>Reading one key of a JSON object, as a consumer of a tool result does.\<close>

definition json_get :: "json \<Rightarrow> string \<Rightarrow> json option" where
  "json_get j k = (case j of JObj kv \<Rightarrow> map_of kv k | _ \<Rightarrow> None)"

section \<open>Thread store (commit_critic_agent.py)\<close>

text \<open>
  The state the thread functions read and write: whether the SQLite checkpointer could be
  imported (\<open>SQLITE_AVAILABLE\<close>), the file \<open>checkpoints.db\<close>, and the global
  \<open>_memory_saver\<close>. The file is absent, or present without a \<open>checkpoints\<close> table
  (the \<open>sqlite3.OperationalError\<close> the code catches), or holds the rows of that table,
  each a thread id and a checkpoint id; one thread has one row per checkpoint.
  \<open>SELECT DISTINCT thread_id\<close> gives each thread id once, in an order SQLite does not
  promise. Failures of SQLite other than \<open>OperationalError\<close> are outside the model.
\<close>

datatype checkpoint_db = NoFile | NoTable | Checkpoints "(string \<times> string) list"

record store =
  sqlite_available :: bool
  db :: checkpoint_db
  memory_saver :: "string list option"

definition list_threads :: "store \<Rightarrow> string list" where
  "list_threads s =
     (if \<not> sqlite_available s then
        [''(in-memory threads not listable - install langgraph-checkpoint-sqlite)'']
      else
        (case db s of
           NoFile \<Rightarrow> []
         | NoTable \<Rightarrow> []
         | Checkpoints rows \<Rightarrow> remdups (map fst rows)))"

definition clear_thread :: "string \<Rightarrow> store \<Rightarrow> bool \<times> store" where
  "clear_thread thread_id s =
     (if \<not> sqlite_available s then (False, s)
      else
        (case db s of
           NoFile \<Rightarrow> (False, s)
         | NoTable \<Rightarrow> (False, s)
         | Checkpoints rows \<Rightarrow>
             (0 < length (filter (\<lambda>r. fst r = thread_id) rows),
              s\<lparr>db := Checkpoints (filter (\<lambda>r. fst r \<noteq> thread_id) rows)\<rparr>)))"

definition clear_all_threads :: "store \<Rightarrow> int \<times> store" where
  "clear_all_threads s =
     (if \<not> sqlite_available s then (1, s\<lparr>memory_saver := None\<rparr>)
      else
        (case db s of
           NoFile \<Rightarrow> (0, s)
         | NoTable \<Rightarrow> (0, s)
         | Checkpoints rows \<Rightarrow> (int (length rows), s\<lparr>db := Checkpoints []\<rparr>)))"

section \<open>Approval workflow (cli.py, run_write)\<close>

text \<open>
  The agent built by \<open>create_commit_critic_agent\<close> (the language model, its
  sub-agents and its checkpointer) is an external collaborator, so it is a parameter of
  the model. One call \<open>agent.invoke({"messages": msgs}, config)\<close> in the agent's state
  \<open>st\<close> (thread checkpoint, model, repository) gives the new state, the messages of the
  result, and the messages with which the \<open>execute_commit\<close> sub-agent called
  \<open>create_commit_tool\<close> while the call ran. \<open>cli.py\<close> never calls
  \<open>create_commit_tool\<close> itself: every commit is made by the agent. An invocation
  that raises ends \<open>run_write\<close> where it stands; the model follows the runs in which
  every invocation returns.
\<close>

datatype message = HumanMessage string | AIMessage string | ToolMessage string

record 'st agent_reply =
  reply_state :: 'st
  reply_messages :: "message list"
  reply_commits :: "string list"

type_synonym 'st agent = "'st \<Rightarrow> message list \<Rightarrow> 'st agent_reply"

text \<open>
  What \<open>run_write\<close> holds while it runs: the agent's state, \<open>result["messages"]\<close>,
  the texts it has sent to the agent so far, and the commits the agent has made so far.
\<close>

record 'st session =
  agent_state :: 'st
  messages :: "message list"
  requests :: "string list"
  commits :: "string list"

definition invoke_agent :: "'st agent \<Rightarrow> string \<Rightarrow> 'st session \<Rightarrow> 'st session" where
  "invoke_agent agent message s =
     (let r = agent (agent_state s) [HumanMessage message] in
      \<lparr>agent_state = reply_state r, messages = reply_messages r,
       requests = requests s @ [message], commits = commits s @ reply_commits r\<rparr>)"

definition continue_conversation :: "'st agent \<Rightarrow> string \<Rightarrow> 'st session \<Rightarrow> 'st session" where
  "continue_conversation agent new_message s =
     (let r = agent (agent_state s) (messages s @ [HumanMessage new_message]) in
      \<lparr>agent_state = reply_state r, messages = reply_messages r,
       requests = requests s @ [new_message], commits = commits s @ reply_commits r\<rparr>)"

text \<open>The texts \<open>run_write\<close> sends to the agent.\<close>

definition write_prompt :: "string \<Rightarrow> string" where
  \<open>write_prompt repo_path =
     ''Help me write a commit message for my staged changes in '' @ repo_path @ [LF, LF] @
     ''Steps:'' @ [LF] @
     ''1. Get staged changes using task("get_staged_changes", "Get staged diff from '' @
        repo_path @ ''")'' @ [LF] @
     ''2. If no staged changes, tell me to stage files first'' @ [LF] @
     ''3. If there are staged changes, generate a commit message using '' @
        ''task("suggest_commit_message", "Suggest commit for: [diff]")'' @ [LF] @
     ''4. Present the suggested commit message clearly'' @ [LF, LF] @
     ''Do NOT execute the commit - just suggest the message and wait for my approval.''\<close>

definition accept_request :: string where
  "accept_request =
     ''Yes, execute the commit with that message using task('execute_commit', '...')''"

definition revised_request :: string where
  "revised_request = ''Yes, execute the commit with that revised message''"

definition custom_request :: "string \<Rightarrow> string" where
  "custom_request custom_msg = ''Execute commit with this exact message: '' @ custom_msg"

definition revise_request :: "string \<Rightarrow> string" where
  "revise_request feedback =
     ''Please revise the commit message based on this feedback: '' @ feedback"

text \<open>
  \<open>input("> ")\<close> reads the next line of \<open>stdin\<close> and raises \<open>EOFError\<close> when there
  is none. The branches of \<open>run_write\<close> that send an execution request are the route
  \<open>Accepted\<close>; the branches that print \<open>Commit cancelled.\<close> are the route
  \<open>Cancelled\<close>. \<open>display_results\<close> and the other console output do not change the
  control flow and are left out.
\<close>

datatype py_error = EOFError

datatype route = Accepted | Cancelled

definition run_write ::
  "'st agent \<Rightarrow> 'st \<Rightarrow> string \<Rightarrow> string list \<Rightarrow> (py_error + route) \<times> 'st session" where
  "run_write agent st repo_path stdin =
     (let s0 = \<lparr>agent_state = st, messages = [], requests = [], commits = []\<rparr>;
          result = invoke_agent agent (write_prompt repo_path) s0
      in case stdin of
           [] \<Rightarrow> (Inl EOFError, result)
         | line1 # stdin1 \<Rightarrow>
        (let user_input = py_strip line1 in
         if py_lower user_input \<in> set ['''', ''y'', ''yes'', ''accept''] then
           (Inr Accepted, continue_conversation agent accept_request result)
         else if py_lower user_input \<in> set [''n'', ''no'', ''cancel'', ''q'', ''quit''] then
           (Inr Cancelled, result)
         else if py_lower user_input \<in> set [''r'', ''revise'', ''feedback''] then
           (case stdin1 of
              [] \<Rightarrow> (Inl EOFError, result)
            | line2 # stdin2 \<Rightarrow>
                (let feedback = py_strip line2;
                     result2 = continue_conversation agent (revise_request feedback) result
                 in case stdin2 of
                      [] \<Rightarrow> (Inl EOFError, result2)
                    | line3 # stdin3 \<Rightarrow>
                        (let confirm = py_strip line3 in
                         if py_lower confirm \<in> set ['''', ''y'', ''yes''] then
                           (Inr Accepted, continue_conversation agent revised_request result2)
                         else (Inr Cancelled, result2))))
         else if py_lower user_input \<in> set [''c'', ''custom''] then
           (case stdin1 of
              [] \<Rightarrow> (Inl EOFError, result)
            | line2 # stdin2 \<Rightarrow>
                (let custom_msg = py_strip line2 in
                 if custom_msg \<noteq> [] then
                   (Inr Accepted, continue_conversation agent (custom_request custom_msg) result)
                 else (Inr Cancelled, result)))
         else (Inr Cancelled, result)))"

definition initial_session :: "'st \<Rightarrow> 'st session" where
  "initial_session st = \<lparr>agent_state = st, messages = [], requests = [], commits = []\<rparr>"

definition suggested :: "'st agent \<Rightarrow> 'st \<Rightarrow> string \<Rightarrow> 'st session" where
  "suggested agent st p = invoke_agent agent (write_prompt p) (initial_session st)"

definition revised :: "'st agent \<Rightarrow> 'st \<Rightarrow> string \<Rightarrow> string \<Rightarrow> 'st session" where
  "revised agent st p line2 =
     continue_conversation agent (revise_request (py_strip line2)) (suggested agent st p)"

text \<open>
  The three texts with which \<open>run_write\<close> asks the agent to execute the commit, and the
  execution requests among the texts of a session.
\<close>

definition is_execute_request :: "string \<Rightarrow> bool" where
  "is_execute_request t =
     (t = accept_request \<or> t = revised_request \<or>
      startswith t ''Execute commit with this exact message: '')"

definition execute_requests :: "'st session \<Rightarrow> string list" where
  "execute_requests s = filter is_execute_request (requests s)"

text \<open>
  The explicit affirmatives of the specification: accept at the first prompt; revise,
  any feedback, and yes at the confirmation; custom, and a text that is not empty once
  stripped.
\<close>

definition explicit_affirmative :: "string list \<Rightarrow> bool" where
  "explicit_affirmative stdin =
     (case stdin of
        [] \<Rightarrow> False
      | line1 # stdin1 \<Rightarrow>
          py_lower (py_strip line1) \<in> set ['''', ''y'', ''yes'', ''accept''] \<or>
          (py_lower (py_strip line1) \<in> set [''r'', ''revise'', ''feedback''] \<and>
           (case stdin1 of
              line2 # line3 # stdin3 \<Rightarrow> py_lower (py_strip line3) \<in> set ['''', ''y'', ''yes'']
            | _ \<Rightarrow> False)) \<or>
          (py_lower (py_strip line1) \<in> set [''c'', ''custom''] \<and>
           (case stdin1 of line2 # stdin2 \<Rightarrow> py_strip line2 \<noteq> [] | [] \<Rightarrow> False)))"

definition accept_inputs :: "string list" where
  "accept_inputs = ['''', ''y'', ''yes'', ''accept'']"

definition cancel_inputs :: "string list" where
  "cancel_inputs = [''n'', ''no'', ''cancel'', ''q'', ''quit'']"

definition revise_inputs :: "string list" where
  "revise_inputs = [''r'', ''revise'', ''feedback'']"

definition custom_inputs :: "string list" where
  "custom_inputs = [''c'', ''custom'']"

definition unrecognized :: "string \<Rightarrow> bool" where
  "unrecognized u \<longleftrightarrow> u \<notin> set (accept_inputs @ cancel_inputs @ revise_inputs @ custom_inputs)"

text \<open>
  Contracts an agent may or may not keep. \<open>last_request\<close> is the text of the human
  message that ends the messages the agent is invoked with.
\<close>

definition last_request :: "message list \<Rightarrow> string option" where
  "last_request msgs = (case rev msgs of HumanMessage t # _ \<Rightarrow> Some t | _ \<Rightarrow> None)"

definition commits_only_on_request :: "'st agent \<Rightarrow> bool" where
  "commits_only_on_request agent \<longleftrightarrow>
     (\<forall>st msgs t. last_request msgs = Some t \<longrightarrow> \<not> is_execute_request t \<longrightarrow>
        reply_commits (agent st msgs) = [])"

definition one_commit_per_request :: "'st agent \<Rightarrow> bool" where
  "one_commit_per_request agent \<longleftrightarrow>
     (\<forall>st msgs t. last_request msgs = Some t \<longrightarrow>
        length (reply_commits (agent st msgs)) = (if is_execute_request t then 1 else 0))"

definition relays_custom_message :: "'st agent \<Rightarrow> bool" where
  "relays_custom_message agent \<longleftrightarrow>
     commits_only_on_request agent \<and>
     (\<forall>st msgs m. last_request msgs = Some (custom_request m) \<longrightarrow>
        reply_commits (agent st msgs) = [m])"

text \<open>
  Three agents. \<open>relay_agent\<close> commits once per execution request, the custom text when
  one is given. \<open>hasty_agent\<close> commits its revision as soon as it is asked to revise.
  \<open>idle_agent\<close> never commits.
\<close>

definition relay_agent :: "unit agent" where
  "relay_agent st msgs =
     \<lparr>reply_state = st,
      reply_messages = msgs @ [AIMessage ''ok''],
      reply_commits =
        (case last_request msgs of
           None \<Rightarrow> []
         | Some t \<Rightarrow>
             if t = accept_request \<or> t = revised_request
             then [''feat(api): add caching layer'']
             else if startswith t ''Execute commit with this exact message: ''
             then [drop (length ''Execute commit with this exact message: '') t]
             else [])\<rparr>"

definition hasty_agent :: "unit agent" where
  "hasty_agent st msgs =
     \<lparr>reply_state = st,
      reply_messages = msgs @ [AIMessage ''ok''],
      reply_commits =
        (case last_request msgs of
           None \<Rightarrow> []
         | Some t \<Rightarrow>
             if startswith t ''Please revise the commit message''
             then [''fix(cli): shorter subject'']
             else [])\<rparr>"

definition idle_agent :: "unit agent" where
  "idle_agent st msgs =
     \<lparr>reply_state = st, reply_messages = msgs @ [AIMessage ''ok''], reply_commits = []\<rparr>"

section \<open>Command line (cli.py, main)\<close>

text \<open>
  \<open>console.print\<close> of the library rich reads its argument as markup and raises
  \<open>MarkupError\<close> on text it cannot parse, such as a closing tag with no open tag.
  The library is a parameter: a \<open>console\<close> says of each text whether printing it
  raises. \<open>cli.py\<close> catches no exception, so a raise ends the process with exit
  status 1. \<open>console_print\<close> prints texts in order up to the first that raises.
\<close>

type_synonym console = "string \<Rightarrow> bool"

datatype event =
    Printed string
  | MarkupError string
  | PrintBanner
  | PrintHelp
  | RunAnalyze "string option" int "string option"
  | RunWrite "string option"

fun console_print :: "console \<Rightarrow> string list \<Rightarrow> event list \<times> bool" where
  "console_print console [] = ([], False)"
| "console_print console (t # ts) =
     (if console t then ([MarkupError t], True)
      else (let (es, raised) = console_print console ts in (Printed t # es, raised)))"

text \<open>
  The bullet of the thread lines is U+2022, outside the range of the string model; it
  stands here as the three bytes of its UTF-8 encoding. \<open>db_path\<close> is
  \<open>str(CHECKPOINT_DB)\<close>, a path under the user's home directory.
\<close>

definition BULLET :: string where
  "BULLET = [CHR 0xE2, CHR 0x80, CHR 0xA2]"

definition run_list_threads :: "console \<Rightarrow> string \<Rightarrow> store \<Rightarrow> event list \<times> bool" where
  "run_list_threads console db_path s =
     (let threads = list_threads s in
      if threads = [] then
        console_print console
          [''[yellow]No conversation threads found.[/yellow]'',
           ''[dim]Checkpoint DB: '' @ db_path @ ''[/dim]'']
      else
        console_print console
          ([[LF] @ ''[bold]Conversation Threads[/bold] ('' @ py_str_nat (length threads) @
              '' total)'',
            ''[dim]Stored in: '' @ db_path @ ''[/dim]'' @ [LF]] @
           map (\<lambda>thread. ''  '' @ BULLET @ '' '' @ thread) threads @
           [[LF] @ ''[dim]Use --thread <id> to continue a conversation[/dim]'']))"

text \<open>\<open>if thread_id:\<close> holds for a thread id that is given and not empty.\<close>

definition truthy :: "string option \<Rightarrow> bool" where
  "truthy v = (case v of None \<Rightarrow> False | Some s \<Rightarrow> s \<noteq> [])"

definition run_clear_threads ::
  "console \<Rightarrow> string option \<Rightarrow> store \<Rightarrow> (event list \<times> bool) \<times> store" where
  "run_clear_threads console thread_id s =
     (let clear_all =
            (let (count, s') = clear_all_threads s in
             (console_print console
                [''[green]Cleared '' @ py_str_int count @ '' thread(s)[/green]''], s'))
      in case thread_id of
           None \<Rightarrow> clear_all
         | Some t \<Rightarrow>
             if t \<noteq> [] then
               (let (found, s') = clear_thread t s in
                if found then
                  (console_print console [''[green]Cleared thread: '' @ t @ ''[/green]''], s')
                else
                  (console_print console [''[red]Thread not found: '' @ t @ ''[/red]''], s'))
             else clear_all)"

text \<open>
  \<open>main\<close> after \<open>parser.parse_args()\<close>: the console, the path of the checkpoint
  database, the parsed arguments, the value of
  \<open>os.environ.get("ANTHROPIC_API_KEY")\<close> and the thread store go in. The run is what
  \<open>main\<close> prints and calls, in order, the exit status of the process where \<open>main\<close>
  decides it (the argument of \<open>sys.exit\<close>, or 1 after an uncaught \<open>MarkupError\<close>;
  \<open>None\<close> when \<open>main\<close> ends in \<open>run_analyze\<close> or \<open>run_write\<close>), and the store it
  leaves. The agent is created and invoked inside \<open>run_analyze\<close> and \<open>run_write\<close>
  only.
\<close>

record args =
  opt_analyze :: bool
  opt_write :: bool
  opt_url :: "string option"
  opt_limit :: int
  opt_quiet :: bool
  opt_thread :: "string option"
  opt_threads :: bool
  opt_clear_threads :: bool

record cli_run =
  events :: "event list"
  exit_code :: "int option"
  store_after :: store

definition main :: "console \<Rightarrow> string \<Rightarrow> args \<Rightarrow> string option \<Rightarrow> store \<Rightarrow> cli_run" where
  "main console db_path a api_key s =
     (if opt_threads a then
        (let printed = run_list_threads console db_path s in
         \<lparr>events = fst printed, exit_code = Some (if snd printed then 1 else 0),
          store_after = s\<rparr>)
      else if opt_clear_threads a then
        (let cleared = run_clear_threads console (opt_thread a) s in
         \<lparr>events = fst (fst cleared), exit_code = Some (if snd (fst cleared) then 1 else 0),
          store_after = snd cleared\<rparr>)
      else if \<not> truthy api_key then
        (let printed =
               console_print console
                 [''[bold red]Error:[/bold red] ANTHROPIC_API_KEY environment variable not set.'',
                  ''Set it with: export ANTHROPIC_API_KEY=sk-ant-...'']
         in \<lparr>events = fst printed, exit_code = Some 1, store_after = s\<rparr>)
      else
        (let banner = (if \<not> opt_quiet a then [PrintBanner] else []) in
         if opt_analyze a then
           \<lparr>events = banner @ [RunAnalyze (opt_url a) (opt_limit a) (opt_thread a)],
            exit_code = None, store_after = s\<rparr>
         else if opt_write a then
           \<lparr>events = banner @ [RunWrite (opt_thread a)], exit_code = None, store_after = s\<rparr>
         else
           (let printed =
                  console_print console
                    [[LF] @ ''[yellow]Please specify --analyze, --write, or --threads[/yellow]'']
            in \<lparr>events = banner @ [PrintHelp] @ fst printed, exit_code = Some 1,
                store_after = s\<rparr>)))"

definition invokes_agent :: "event \<Rightarrow> bool" where
  "invokes_agent e = (case e of RunAnalyze u l t \<Rightarrow> True | RunWrite t \<Rightarrow> True | _ \<Rightarrow> False)"

text \<open>
  A console that raises on the closing tag \<open>[/x]\<close> in a text with no tag \<open>[x]\<close>, as
  rich does, and prints every other text.
\<close>

fun contains :: "string \<Rightarrow> string \<Rightarrow> bool" where
  "contains [] p = (p = [])"
| "contains (c # cs) p = (startswith (c # cs) p \<or> contains cs p)"

definition closing_x_console :: console where
  "closing_x_console t = (contains t ''[/x]'' \<and> \<not> contains t ''[x]'')"

section \<open>Example data\<close>

text \<open>
  A repository of three commits with what \<open>git log -n1\<close> answers there, a
  checkpoint store holding one thread with two checkpoints, and the arguments
  \<open>argparse\<close> gives when no option is set.
\<close>

definition example_history :: "commit list" where
  "example_history =
     [\<lparr>sha = ''0123456789abcdef0123456789abcdef01234567'',
       subject = ''feat(auth): add token refresh'', body_text = ''Rotate tokens.'' @ [LF]\<rparr>,
      \<lparr>sha = ''89abcdef0123456789abcdef0123456789abcdef'', subject = ''fix'', body_text = []\<rparr>,
      \<lparr>sha = ''fedcba9876543210fedcba9876543210fedcba98'', subject = ''wip'', body_text = []\<rparr>]"

definition example_git_log :: git where
  "example_git_log argv = Exited 0 (git_log_output (take 1 example_history)) []"

definition example_store :: store where
  "example_store =
     \<lparr>sqlite_available = True,
      db = Checkpoints [(''thread_a'', ''checkpoint-1''), (''thread_a'', ''checkpoint-2'')],
      memory_saver = None\<rparr>"

definition default_args :: args where
  "default_args =
     \<lparr>opt_analyze = False, opt_write = False, opt_url = None, opt_limit = 50,
      opt_quiet = False, opt_thread = None, opt_threads = False, opt_clear_threads = False\<rparr>"

section \<open>Facts about the string functions\<close>

lemmas py_string_defs =
  py_lower_def py_strip_def py_isspace_def py_lower_char_def lower_table_def startswith_def

lemma dropWhile_id_iff: "dropWhile P xs = xs \<longleftrightarrow> xs = [] \<or> \<not> P (hd xs)"
proof (cases xs)
  case Nil
  then show ?thesis by simp
next
  case (Cons a list)
  have "dropWhile P list \<noteq> a # list"
    using length_dropWhile_le [of P list] by (auto dest: arg_cong [where f = length])
  with Cons show ?thesis by auto
qed

lemma dropWhile_head: "dropWhile P xs = [] \<or> \<not> P (hd (dropWhile P xs))"
  by (metis hd_dropWhile)

lemma dropWhile_rev_Nil_iff:
  "dropWhile P (rev (dropWhile P s)) = [] \<longleftrightarrow> dropWhile P s = []"
proof
  assume a: "dropWhile P (rev (dropWhile P s)) = []"
  show "dropWhile P s = []"
  proof (rule ccontr)
    assume n: "dropWhile P s \<noteq> []"
    then have "\<not> P (hd (dropWhile P s))" by (rule hd_dropWhile)
    moreover have "hd (dropWhile P s) \<in> set (rev (dropWhile P s))" using n by simp
    moreover have "\<forall>x\<in>set (rev (dropWhile P s)). P x"
      using a unfolding dropWhile_eq_Nil_conv .
    ultimately show False by blast
  qed
next
  assume e: "dropWhile P s = []"
  show "dropWhile P (rev (dropWhile P s)) = []" unfolding e by simp
qed

lemma py_strip_Nil_iff: "py_strip s = [] \<longleftrightarrow> (\<forall>c\<in>set s. py_isspace c)"
proof -
  have "py_strip s = [] \<longleftrightarrow> dropWhile py_isspace (rev (dropWhile py_isspace s)) = []"
    unfolding py_strip_def rev_is_Nil_conv ..
  also have "\<dots> \<longleftrightarrow> dropWhile py_isspace s = []" by (rule dropWhile_rev_Nil_iff)
  also have "\<dots> \<longleftrightarrow> (\<forall>c\<in>set s. py_isspace c)" by (rule dropWhile_eq_Nil_conv)
  finally show ?thesis .
qed

lemma py_strip_Nil [simp]: "py_strip [] = []"
  by (simp add: py_strip_def)

lemma strip_ends:
  assumes "t = [] \<or> \<not> P (hd t)"
  shows "dropWhile P (rev (dropWhile P (rev t))) = rev (dropWhile P (rev t))"
proof (cases t)
  case Nil
  then show ?thesis by simp
next
  case (Cons x t')
  with assms have nx: "\<not> P x" by simp
  have "dropWhile P (rev t' @ [x]) = [x] \<or> dropWhile P (rev t' @ [x]) = dropWhile P (rev t') @ [x]"
    using nx by (simp add: dropWhile_append)
  then have "hd (rev (dropWhile P (rev t))) = x"
    using Cons by auto
  then show ?thesis using nx unfolding dropWhile_id_iff by simp
qed

lemma py_strip_idem: "py_strip (py_strip s) = py_strip s"
proof -
  let ?t = "dropWhile py_isspace s"
  let ?r = "dropWhile py_isspace (rev ?t)"
  have 1: "dropWhile py_isspace (rev ?r) = rev ?r"
    using strip_ends [of ?t py_isspace] dropWhile_head [of py_isspace s] by simp
  have 2: "dropWhile py_isspace ?r = ?r"
    using dropWhile_head [of py_isspace "rev ?t"] by (simp add: dropWhile_id_iff)
  show ?thesis by (simp add: py_strip_def 1 2)
qed

section \<open>create_commit_tool commits the stripped message\<close>

lemma create_commit_tool_blank:
  assumes "py_strip message = []"
  shows "create_commit_tool git message repo_path =
           (JObj [(''success'', JBool False), (''error'', JStr ''Empty commit message provided'')],
            [])"
  using assms by (simp add: create_commit_tool_def)

lemma create_commit_tool_spawn:
  assumes "py_strip message \<noteq> []"
  shows "snd (create_commit_tool git message repo_path) =
           [Spawn [''git'', ''-C'', repo_path, ''commit'', ''-m'', py_strip message]]"
proof -
  from assms have "message \<noteq> []" by auto
  with assms show ?thesis
    by (simp add: create_commit_tool_def Let_def split: sum.splits run_error.splits)
qed

text \<open>
  C10. For every message, \<open>create_commit_tool\<close> works on the stripped message. A message
  that is empty or all whitespace gives the error result \<open>Empty commit message provided\<close>
  and spawns no subprocess. For any other message the one subprocess spawned is
  \<open>git -C repo_path commit -m\<close> with \<open>message.strip()\<close> as the message, so a message
  with leading or trailing whitespace is never passed to \<open>git commit\<close> as it was given.
\<close>

theorem create_commit_tool_strips_message:
  "((\<forall>c\<in>set message. py_isspace c) \<longrightarrow>
      create_commit_tool git message repo_path =
        (JObj [(''success'', JBool False), (''error'', JStr ''Empty commit message provided'')],
         []))
   \<and> (\<not> (\<forall>c\<in>set message. py_isspace c) \<longrightarrow>
      snd (create_commit_tool git message repo_path) =
        [Spawn [''git'', ''-C'', repo_path, ''commit'', ''-m'', py_strip message]])
   \<and> (py_strip message \<noteq> message \<longrightarrow>
      Spawn [''git'', ''-C'', repo_path, ''commit'', ''-m'', message]
        \<notin> set (snd (create_commit_tool git message repo_path)))"
proof (intro conjI impI)
  assume "\<forall>c\<in>set message. py_isspace c"
  then have "py_strip message = []" by (simp only: py_strip_Nil_iff)
  then show "create_commit_tool git message repo_path =
        (JObj [(''success'', JBool False), (''error'', JStr ''Empty commit message provided'')],
         [])"
    by (rule create_commit_tool_blank)
next
  assume "\<not> (\<forall>c\<in>set message. py_isspace c)"
  then have "py_strip message \<noteq> []" by (simp only: py_strip_Nil_iff not_False_eq_True)
  then show "snd (create_commit_tool git message repo_path) =
        [Spawn [''git'', ''-C'', repo_path, ''commit'', ''-m'', py_strip message]]"
    by (rule create_commit_tool_spawn)
next
  assume ne: "py_strip message \<noteq> message"
  show "Spawn [''git'', ''-C'', repo_path, ''commit'', ''-m'', message]
        \<notin> set (snd (create_commit_tool git message repo_path))"
  proof (cases "py_strip message = []")
    case True
    then show ?thesis by (simp add: create_commit_tool_blank)
  next
    case False
    then show ?thesis using ne by (simp add: create_commit_tool_spawn)
  qed
qed

theorem create_commit_tool_strips_message_witness:
  "create_commit_tool (\<lambda>argv. Exited 0 [] []) [CHR '' '', CHR 0x09, LF] ''.'' =
     (JObj [(''success'', JBool False), (''error'', JStr ''Empty commit message provided'')], [])
   \<and> snd (create_commit_tool (\<lambda>argv. Exited 0 [] []) ''  fix(api): handle timeout '' ''.'') =
       [Spawn [''git'', ''-C'', ''.'', ''commit'', ''-m'', ''fix(api): handle timeout'']]
   \<and> Spawn [''git'', ''-C'', ''.'', ''commit'', ''-m'', ''  fix(api): handle timeout '']
       \<notin> set (snd (create_commit_tool (\<lambda>argv. Exited 0 [] []) ''  fix(api): handle timeout '' ''.''))"
proof -
  have blank: "\<forall>c\<in>set [CHR '' '', CHR 0x09, LF]. py_isspace c"
    by (simp add: py_isspace_def LF_def)
  have nonblank: "\<not> (\<forall>c\<in>set ''  fix(api): handle timeout ''. py_isspace c)"
    by (simp add: py_isspace_def)
  have stripped: "py_strip ''  fix(api): handle timeout '' = ''fix(api): handle timeout''"
    by (simp add: py_strip_def py_isspace_def)
  show ?thesis
    using create_commit_tool_strips_message
            [of "[CHR '' '', CHR 0x09, LF]" "\<lambda>argv. Exited 0 [] []" "''.''"]
          create_commit_tool_strips_message
            [of "''  fix(api): handle timeout ''" "\<lambda>argv. Exited 0 [] []" "''.''"]
          blank nonblank stripped
    by simp
qed

section \<open>get_commits_tool clamps the limit\<close>

lemma split_on_append_sep:
  "sep \<notin> set a \<Longrightarrow> split_on sep (a @ sep # rest) = a # split_on sep rest"
  by (induction a) auto

lemma split_on_no_sep: "sep \<notin> set a \<Longrightarrow> split_on sep a = [a]"
  by (induction a) auto

lemma length_parse_entry: "length (parse_entry e) \<le> 1"
  by (simp add: parse_entry_def Let_def)

lemma parse_entry_LF: "parse_entry [LF] = []"
  by (simp add: parse_entry_def LF_def py_strip_def py_isspace_def)

lemma parse_entry_Nil: "parse_entry [] = []"
  by (simp add: parse_entry_def)

lemma parse_git_log_output_le:
  assumes "\<forall>c\<in>set cs. nul_free c" and "NUL \<notin> set pre"
  shows "length (concat (map parse_entry (split_on NUL (pre @ git_log_output cs))))
           \<le> length cs + length (parse_entry pre)"
  using assms
proof (induction cs arbitrary: pre)
  case Nil
  then show ?case by (simp add: git_log_output_def split_on_no_sep)
next
  case (Cons c cs)
  let ?fields = "pre @ sha c @ [US] @ subject c @ [US] @ body_text c"
  have nf: "NUL \<notin> set ?fields"
    using Cons.prems by (simp add: nul_free_def NUL_def US_def)
  have eq: "pre @ git_log_output (c # cs) = ?fields @ NUL # ([LF] @ git_log_output cs)"
    by (simp add: git_log_output_def git_log_record_def)
  have rest: "length (concat (map parse_entry (split_on NUL ([LF] @ git_log_output cs))))
                \<le> length cs + length (parse_entry [LF])"
    using Cons.prems by (intro Cons.IH) (simp_all add: NUL_def LF_def)
  have "length (concat (map parse_entry (split_on NUL (pre @ git_log_output (c # cs)))))
          = length (parse_entry ?fields)
            + length (concat (map parse_entry (split_on NUL ([LF] @ git_log_output cs))))"
    unfolding eq split_on_append_sep [OF nf] by simp
  also have "\<dots> \<le> 1 + length cs"
    using rest length_parse_entry [of ?fields] by (simp add: parse_entry_LF)
  finally show ?case by simp
qed

lemma get_commits_tool_effects:
  "snd (get_commits_tool git repo_path limit) =
     [Spawn (git_log_argv repo_path (max 1 (min limit 500)))]"
  by (simp add: get_commits_tool_def Let_def split: sum.splits run_error.splits)

lemma get_commits_tool_bound:
  assumes "\<forall>c\<in>set history. nul_free c"
      and "git (git_log_argv repo_path (max 1 (min limit 500))) =
             Exited 0 (git_log_output (take (nat (max 1 (min limit 500))) history)) err"
  shows "length (returned_commits (fst (get_commits_tool git repo_path limit)))
           \<le> nat (max 1 (min limit 500))"
proof -
  let ?k = "nat (max 1 (min limit 500))"
  have nf: "\<forall>c\<in>set (take ?k history). nul_free c"
    using assms(1) by (meson in_set_takeD)
  have "length (concat (map parse_entry (split_on NUL ([] @ git_log_output (take ?k history)))))
          \<le> length (take ?k history) + length (parse_entry [])"
    using nf by (intro parse_git_log_output_le) simp_all
  then have "length (concat (map parse_entry (split_on NUL (git_log_output (take ?k history)))))
          \<le> ?k"
    by (simp add: parse_entry_Nil)
  then show ?thesis
    using assms(2) by (simp add: get_commits_tool_def subprocess_run_def returned_commits_def)
qed

lemma get_commits_tool_failed:
  assumes "subprocess_run git (git_log_argv repo_path (max 1 (min limit 500))) = Inl e"
  shows "returned_commits (fst (get_commits_tool git repo_path limit)) = []"
  using assms by (cases e) (simp_all add: get_commits_tool_def returned_commits_def)

text \<open>
  C5. For every integer \<open>limit\<close>, \<open>get_commits_tool\<close> runs one \<open>git log\<close> whose
  \<open>-n\<close> argument is \<open>max(1, min(limit, 500))\<close>, a number from 1 to 500. A limit of 0
  or below behaves as the limit 1, and a limit of 500 or above as the limit 500. When
  \<open>git log -n k\<close> prints the \<open>k\<close> newest commits of a history of any length (hash,
  subject and body free of the byte 0x00), at most 500 commits are returned.
\<close>

theorem get_commits_tool_clamps_limit:
  "snd (get_commits_tool git repo_path limit) =
     [Spawn (git_log_argv repo_path (max 1 (min limit 500)))]
   \<and> 1 \<le> max 1 (min limit 500) \<and> max 1 (min limit 500) \<le> 500
   \<and> (limit \<le> 0 \<longrightarrow> get_commits_tool git repo_path limit = get_commits_tool git repo_path 1)
   \<and> (500 \<le> limit \<longrightarrow> get_commits_tool git repo_path limit = get_commits_tool git repo_path 500)
   \<and> ((\<forall>c\<in>set history. nul_free c) \<longrightarrow>
        git (git_log_argv repo_path (max 1 (min limit 500))) =
          Exited 0 (git_log_output (take (nat (max 1 (min limit 500))) history)) err \<longrightarrow>
        length (returned_commits (fst (get_commits_tool git repo_path limit))) \<le> 500)"
proof (intro conjI impI)
  show "snd (get_commits_tool git repo_path limit) =
     [Spawn (git_log_argv repo_path (max 1 (min limit 500)))]"
    by (rule get_commits_tool_effects)
  show "1 \<le> max 1 (min limit 500)" by simp
  show "max 1 (min limit 500) \<le> 500" by simp
next
  assume "limit \<le> 0"
  then have "max 1 (min limit 500) = 1" by simp
  then show "get_commits_tool git repo_path limit = get_commits_tool git repo_path 1"
    by (simp add: get_commits_tool_def)
next
  assume "500 \<le> limit"
  then have "max 1 (min limit 500) = 500" by simp
  then show "get_commits_tool git repo_path limit = get_commits_tool git repo_path 500"
    by (simp add: get_commits_tool_def)
next
  assume "\<forall>c\<in>set history. nul_free c"
    and "git (git_log_argv repo_path (max 1 (min limit 500))) =
          Exited 0 (git_log_output (take (nat (max 1 (min limit 500))) history)) err"
  then have "length (returned_commits (fst (get_commits_tool git repo_path limit)))
           \<le> nat (max 1 (min limit 500))"
    by (rule get_commits_tool_bound)
  then show "length (returned_commits (fst (get_commits_tool git repo_path limit))) \<le> 500"
    by simp
qed

theorem get_commits_tool_clamps_limit_witness:
  "snd (get_commits_tool example_git_log ''.'' 0) =
     [Spawn [''git'', ''-C'', ''.'', ''log'', ''-n1'', ''--format=%H%x1f%s%x1f%b%x00'']]
   \<and> get_commits_tool example_git_log ''.'' (- 3) = get_commits_tool example_git_log ''.'' 1
   \<and> get_commits_tool example_git_log ''.'' 1000 = get_commits_tool example_git_log ''.'' 500
   \<and> length example_history = 3
   \<and> length (returned_commits (fst (get_commits_tool example_git_log ''.'' 0))) \<le> 500
   \<and> fst (get_commits_tool example_git_log ''.'' 0) =
       JArr [JObj [(''hash'', JStr ''01234567''),
                   (''message'', JStr ''feat(auth): add token refresh''),
                   (''body'', JStr ''Rotate tokens.'')]]"
proof -
  have wf: "\<forall>c\<in>set example_history. nul_free c"
    by (simp add: example_history_def nul_free_def NUL_def LF_def)
  have k: "max 1 (min (0::int) 500) = 1" by simp
  have answer: "example_git_log (git_log_argv ''.'' (max 1 (min 0 500))) =
      Exited 0 (git_log_output (take (nat (max 1 (min 0 500))) example_history)) []"
    by (simp add: example_git_log_def)
  have argv: "git_log_argv ''.'' 1 =
      [''git'', ''-C'', ''.'', ''log'', ''-n1'', ''--format=%H%x1f%s%x1f%b%x00'']"
    by (simp add: git_log_argv_def py_str_int_def py_str_nat.simps)
  have len: "length example_history = 3" by (simp add: example_history_def)
  note t0 = get_commits_tool_clamps_limit [of example_git_log "''.''" 0 example_history "[]"]
  note t3 = get_commits_tool_clamps_limit [of example_git_log "''.''" "- 3" example_history "[]"]
  note t1000 = get_commits_tool_clamps_limit [of example_git_log "''.''" 1000 example_history "[]"]
  have a: "snd (get_commits_tool example_git_log ''.'' 0) =
     [Spawn [''git'', ''-C'', ''.'', ''log'', ''-n1'', ''--format=%H%x1f%s%x1f%b%x00'']]"
    using t0 [THEN conjunct1] by (simp add: k argv)
  have "(- 3 :: int) \<le> 0" by simp
  with t3 have b:
    "get_commits_tool example_git_log ''.'' (- 3) = get_commits_tool example_git_log ''.'' 1"
    by blast
  have "(500 :: int) \<le> 1000" by simp
  with t1000 have c:
    "get_commits_tool example_git_log ''.'' 1000 = get_commits_tool example_git_log ''.'' 500"
    by blast
  have d: "length (returned_commits (fst (get_commits_tool example_git_log ''.'' 0))) \<le> 500"
    using t0 wf answer by blast
  have e: "fst (get_commits_tool example_git_log ''.'' 0) =
       JArr [JObj [(''hash'', JStr ''01234567''),
                   (''message'', JStr ''feat(auth): add token refresh''),
                   (''body'', JStr ''Rotate tokens.'')]]"
    by (simp add: get_commits_tool_def subprocess_run_def example_git_log_def
        example_history_def git_log_output_def git_log_record_def parse_entry_def
        py_strip_def py_isspace_def NUL_def US_def LF_def)
  show ?thesis using a b c d e len by blast
qed

section \<open>clone_repo_tool rejects other URL schemes\<close>

text \<open>
  C6. The URL is stripped of surrounding whitespace first. When what is left does not
  start with \<open>https://\<close>, \<open>http://\<close>, \<open>git://\<close> or \<open>git@\<close> (the empty URL
  included), \<open>clone_repo_tool\<close> returns the failure object (\<open>success\<close> false,
  \<open>repo_path\<close> null, an \<open>error\<close> text) as a value, and neither creates a directory nor
  spawns a subprocess. \<open>ftp://example.com/x\<close> is such a URL.
\<close>

theorem clone_repo_tool_rejects_scheme:
  "(\<not> allowed_scheme (py_strip url) \<longrightarrow>
      clone_repo_tool git mkdtemp url =
        (clone_failure
           (if py_strip url = [] then ''Empty URL provided''
            else ''Invalid URL protocol. Use https://, http://, git://, or git@ URLs''), []))
   \<and> clone_repo_tool git mkdtemp ''ftp://example.com/x'' =
        (clone_failure ''Invalid URL protocol. Use https://, http://, git://, or git@ URLs'', [])
   \<and> clone_repo_tool git mkdtemp [] = (clone_failure ''Empty URL provided'', [])"
proof (intro conjI impI)
  assume "\<not> allowed_scheme (py_strip url)"
  then show "clone_repo_tool git mkdtemp url =
        (clone_failure
           (if py_strip url = [] then ''Empty URL provided''
            else ''Invalid URL protocol. Use https://, http://, git://, or git@ URLs''), [])"
    by (simp add: clone_repo_tool_def)
next
  have "py_strip ''ftp://example.com/x'' = ''ftp://example.com/x''"
    by (simp add: py_strip_def py_isspace_def)
  moreover have "\<not> allowed_scheme ''ftp://example.com/x''"
    by (simp add: allowed_scheme_def startswith_def)
  ultimately show "clone_repo_tool git mkdtemp ''ftp://example.com/x'' =
        (clone_failure ''Invalid URL protocol. Use https://, http://, git://, or git@ URLs'', [])"
    by (simp add: clone_repo_tool_def)
next
  show "clone_repo_tool git mkdtemp [] = (clone_failure ''Empty URL provided'', [])"
    by (simp add: clone_repo_tool_def)
qed

theorem clone_repo_tool_rejects_scheme_witness:
  "clone_repo_tool (\<lambda>argv. Exited 0 [] []) (Inr ''/tmp/commit_critic_x'') '' svn://host/repo '' =
     (clone_failure ''Invalid URL protocol. Use https://, http://, git://, or git@ URLs'', [])
   \<and> clone_repo_tool (\<lambda>argv. Exited 0 [] []) (Inr ''/tmp/commit_critic_x'') ''   '' =
     (clone_failure ''Empty URL provided'', [])"
proof -
  have s: "py_strip '' svn://host/repo '' = ''svn://host/repo''" "py_strip ''   '' = []"
    by (simp_all add: py_strip_def py_isspace_def)
  have n: "\<not> allowed_scheme ''svn://host/repo''" "\<not> allowed_scheme []"
    by (simp_all add: allowed_scheme_def startswith_def)
  show ?thesis
    using clone_repo_tool_rejects_scheme
            [of "'' svn://host/repo ''" "\<lambda>argv. Exited 0 [] []" "Inr ''/tmp/commit_critic_x''"]
          clone_repo_tool_rejects_scheme
            [of "''   ''" "\<lambda>argv. Exited 0 [] []" "Inr ''/tmp/commit_critic_x''"]
          n
    by (simp add: s)
qed

section \<open>get_staged_diff_tool with nothing staged\<close>

text \<open>
  C7. In a repository with no staged file the three \<open>git diff --staged\<close> invocations
  succeed and \<open>--name-only\<close> prints nothing (nothing but whitespace). Then the result
  of \<open>get_staged_diff_tool\<close> is the object with \<open>has_staged\<close> false and the guidance
  message, and it has no \<open>diff\<close>, \<open>stat\<close> or \<open>files\<close> key.
\<close>

theorem get_staged_diff_tool_nothing_staged:
  assumes \<open>git [''git'', ''-C'', repo_path, ''diff'', ''--staged'', ''--stat''] = Exited 0 stat_out e1\<close>
      and \<open>git [''git'', ''-C'', repo_path, ''diff'', ''--staged''] = Exited 0 diff_out e2\<close>
      and \<open>git [''git'', ''-C'', repo_path, ''diff'', ''--staged'', ''--name-only'']
             = Exited 0 files_out e3\<close>
      and \<open>py_strip files_out = []\<close>
  shows \<open>fst (get_staged_diff_tool git repo_path) =
       JObj [(''has_staged'', JBool False),
             (''message'', JStr ''No staged changes found. Stage files with 'git add' first.'')]
     \<and> json_get (fst (get_staged_diff_tool git repo_path)) ''has_staged'' = Some (JBool False)
     \<and> json_get (fst (get_staged_diff_tool git repo_path)) ''message'' =
         Some (JStr ''No staged changes found. Stage files with 'git add' first.'')
     \<and> json_get (fst (get_staged_diff_tool git repo_path)) ''diff'' = None
     \<and> json_get (fst (get_staged_diff_tool git repo_path)) ''stat'' = None
     \<and> json_get (fst (get_staged_diff_tool git repo_path)) ''files'' = None
     \<and> length (snd (get_staged_diff_tool git repo_path)) = 3\<close>
  using assms by (simp add: get_staged_diff_tool_def subprocess_run_def json_get_def)

theorem get_staged_diff_tool_nothing_staged_witness:
  \<open>fst (get_staged_diff_tool (\<lambda>argv. Exited 0 [] []) ''.'') =
     JObj [(''has_staged'', JBool False),
           (''message'', JStr ''No staged changes found. Stage files with 'git add' first.'')]
   \<and> json_get (fst (get_staged_diff_tool (\<lambda>argv. Exited 0 [] []) ''.'')) ''has_staged''
       = Some (JBool False)
   \<and> json_get (fst (get_staged_diff_tool (\<lambda>argv. Exited 0 [] []) ''.'')) ''diff'' = None
   \<and> json_get (fst (get_staged_diff_tool (\<lambda>argv. Exited 0 [] []) ''.'')) ''stat'' = None
   \<and> json_get (fst (get_staged_diff_tool (\<lambda>argv. Exited 0 [] []) ''.'')) ''files'' = None\<close>
  using get_staged_diff_tool_nothing_staged
          [where git = "\<lambda>argv. Exited 0 [] []" and repo_path = "''.''",
           OF refl refl refl py_strip_Nil]
  by blast

section \<open>Clearing all threads\<close>

text \<open>
  C8. \<open>clear_all_threads\<close> returns \<open>cursor.rowcount\<close> of
  \<open>DELETE FROM checkpoints\<close>, the number of checkpoint rows, where its docstring says
  the number of threads cleared: a store holding one thread with two checkpoints reports
  2. Without the SQLite checkpointer it returns 1 whatever the store held.
\<close>

theorem clear_all_threads_counts_rows:
  "list_threads example_store = [''thread_a'']
   \<and> fst (clear_all_threads example_store) = 2
   \<and> list_threads (snd (clear_all_threads example_store)) = []
   \<and> fst (clear_all_threads \<lparr>sqlite_available = False, db = NoFile, memory_saver = None\<rparr>) = 1"
  by (simp add: list_threads_def clear_all_threads_def example_store_def)

lemma clear_all_threads_removes_all:
  "sqlite_available s \<Longrightarrow> list_threads (snd (clear_all_threads s)) = []"
  by (simp add: list_threads_def clear_all_threads_def split: checkpoint_db.splits)

lemma clear_all_threads_count_ge:
  "sqlite_available s \<Longrightarrow> int (length (list_threads s)) \<le> fst (clear_all_threads s)"
proof -
  have "length (remdups xs) \<le> length xs" for xs :: "string list"
    by (rule length_remdups_leq)
  from this [of "map fst rows" for rows] show "sqlite_available s \<Longrightarrow> ?thesis"
    by (auto simp add: list_threads_def clear_all_threads_def split: checkpoint_db.splits)
qed

section \<open>Exit codes of main\<close>

lemma console_print_quiet:
  "\<forall>t\<in>set ts. \<not> console t \<Longrightarrow> console_print console ts = (map Printed ts, False)"
  by (induction ts) auto

lemma console_print_no_agent: "\<forall>e\<in>set (fst (console_print console ts)). \<not> invokes_agent e"
  by (induction ts) (auto simp add: invokes_agent_def split: prod.splits)

lemma run_list_threads_no_agent:
  "\<forall>e\<in>set (fst (run_list_threads console path s)). \<not> invokes_agent e"
  using console_print_no_agent [of console]
  by (simp add: run_list_threads_def Let_def del: console_print.simps)

lemma run_clear_threads_no_agent:
  "\<forall>e\<in>set (fst (fst (run_clear_threads console t s))). \<not> invokes_agent e"
  using console_print_no_agent [of console]
  by (simp add: run_clear_threads_def Let_def del: console_print.simps
      split: option.split prod.split)

lemma run_list_threads_quiet:
  "\<forall>t. \<not> console t \<Longrightarrow> snd (run_list_threads console path s) = False"
  unfolding run_list_threads_def Let_def
  by (simp add: console_print_quiet del: console_print.simps)

lemma run_clear_threads_quiet:
  "\<forall>t. \<not> console t \<Longrightarrow> snd (fst (run_clear_threads console t s)) = False"
  unfolding run_clear_threads_def Let_def
  by (simp add: console_print_quiet del: console_print.simps split: option.split prod.split)

text \<open>
  What holds of \<open>main\<close> on every input: without the API key (unset or empty) the other
  paths exit with status 1 having run neither \<open>run_analyze\<close> nor \<open>run_write\<close>; with
  neither \<open>--analyze\<close> nor \<open>--write\<close> they exit with status 1; the thread paths never
  look at the key and never reach the agent; and with a console that raises on no text
  the thread paths exit with status 0.
\<close>

lemma main_exit_codes:
  "(\<not> opt_threads a \<and> \<not> opt_clear_threads a \<and> \<not> opt_analyze a \<and> \<not> opt_write a \<longrightarrow>
      exit_code (main console path a api_key s) = Some 1)
   \<and> (\<not> opt_threads a \<and> \<not> opt_clear_threads a \<and> \<not> truthy api_key \<longrightarrow>
      exit_code (main console path a api_key s) = Some 1)
   \<and> (\<forall>e \<in> set (events (main console path a api_key s)). invokes_agent e \<longrightarrow> truthy api_key)
   \<and> (opt_threads a \<or> opt_clear_threads a \<longrightarrow>
      main console path a api_key s = main console path a None s)
   \<and> ((\<forall>t. \<not> console t) \<longrightarrow> opt_threads a \<or> opt_clear_threads a \<longrightarrow>
      exit_code (main console path a api_key s) = Some 0)"
proof (intro conjI impI)
  assume "\<not> opt_threads a \<and> \<not> opt_clear_threads a \<and> \<not> opt_analyze a \<and> \<not> opt_write a"
  then show "exit_code (main console path a api_key s) = Some 1"
    by (simp add: main_def Let_def del: console_print.simps)
next
  assume "\<not> opt_threads a \<and> \<not> opt_clear_threads a \<and> \<not> truthy api_key"
  then show "exit_code (main console path a api_key s) = Some 1"
    by (simp add: main_def Let_def del: console_print.simps)
next
  show "\<forall>e \<in> set (events (main console path a api_key s)). invokes_agent e \<longrightarrow> truthy api_key"
    using run_list_threads_no_agent [of console path s]
          run_clear_threads_no_agent [of console "opt_thread a" s]
          console_print_no_agent [of console]
    by (simp add: main_def Let_def invokes_agent_def del: console_print.simps)
next
  assume "opt_threads a \<or> opt_clear_threads a"
  then show "main console path a api_key s = main console path a None s"
    by (auto simp add: main_def)
next
  assume q: "\<forall>t. \<not> console t" and tc: "opt_threads a \<or> opt_clear_threads a"
  show "exit_code (main console path a api_key s) = Some 0"
    using tc run_list_threads_quiet [OF q, of path s]
          run_clear_threads_quiet [OF q, of "opt_thread a" s]
    by (auto simp add: main_def Let_def)
qed

text \<open>
  C9. The claim says \<open>main\<close> exits with status 0 on the \<open>--clear-threads\<close> path.
  \<open>run_clear_threads\<close> puts the thread id into rich markup unescaped, so
  \<open>--clear-threads --thread '[/x]'\<close> raises \<open>MarkupError\<close> in
  \<open>console.print\<close> and the process exits with status 1 before \<open>sys.exit(0)\<close> is
  reached, whether the thread is found or not. A thread id that is not markup exits
  with status 0 on the same console.
\<close>

theorem main_clear_thread_markup_error:
  "exit_code (main closing_x_console ''/home/u/.commit_critic/checkpoints.db''
       (default_args\<lparr>opt_clear_threads := True, opt_thread := Some ''[/x]''\<rparr>) None example_store)
     = Some 1
   \<and> events (main closing_x_console ''/home/u/.commit_critic/checkpoints.db''
       (default_args\<lparr>opt_clear_threads := True, opt_thread := Some ''[/x]''\<rparr>) None example_store)
     = [MarkupError ''[red]Thread not found: [/x][/red]'']
   \<and> exit_code (main closing_x_console ''/home/u/.commit_critic/checkpoints.db''
       (default_args\<lparr>opt_clear_threads := True, opt_thread := Some ''[/x]''\<rparr>) None
       (example_store\<lparr>db := Checkpoints [(''[/x]'', ''checkpoint-1'')]\<rparr>))
     = Some 1
   \<and> exit_code (main closing_x_console ''/home/u/.commit_critic/checkpoints.db''
       (default_args\<lparr>opt_clear_threads := True, opt_thread := Some ''thread_a''\<rparr>) None
       example_store)
     = Some 0"
proof -
  have x: "closing_x_console ''[red]Thread not found: [/x][/red]''"
          "closing_x_console ''[green]Cleared thread: [/x][/green]''"
          "\<not> closing_x_console ''[green]Cleared thread: thread_a[/green]''"
    by (simp_all add: closing_x_console_def startswith_def)
  show ?thesis
    by (simp add: main_def run_clear_threads_def clear_thread_def default_args_def
        example_store_def x)
qed

section \<open>Paths of the approval workflow\<close>

lemma not_execute_prompt [simp]: "\<not> is_execute_request (write_prompt p)"
  by (simp add: is_execute_request_def write_prompt_def accept_request_def revised_request_def
        startswith_def)

lemma not_execute_revise [simp]: "\<not> is_execute_request (revise_request fb)"
  by (simp add: is_execute_request_def revise_request_def accept_request_def revised_request_def
        startswith_def)

lemma is_execute_request_simps [simp]:
  "is_execute_request accept_request" "is_execute_request revised_request"
  "is_execute_request (custom_request m)"
  by (simp_all add: is_execute_request_def custom_request_def startswith_def)

lemma requests_invoke [simp]:
  "requests (invoke_agent agent t s) = requests s @ [t]"
  by (simp add: invoke_agent_def Let_def)

lemma requests_continue [simp]:
  "requests (continue_conversation agent t s) = requests s @ [t]"
  by (simp add: continue_conversation_def Let_def)

lemma last_request_snoc [simp]: "last_request (msgs @ [HumanMessage t]) = Some t"
  by (simp add: last_request_def)

lemma last_request_single [simp]: "last_request [HumanMessage t] = Some t"
  by (simp add: last_request_def)

lemma run_write_eof: "run_write agent st p [] = (Inl EOFError, suggested agent st p)"
  by (simp add: run_write_def suggested_def initial_session_def)

lemma run_write_accept:
  "py_lower (py_strip line) \<in> set ['''', ''y'', ''yes'', ''accept''] \<Longrightarrow>
   run_write agent st p (line # rest) =
     (Inr Accepted, continue_conversation agent accept_request (suggested agent st p))"
  by (simp add: run_write_def suggested_def initial_session_def Let_def)

lemma run_write_cancel:
  "py_lower (py_strip line) \<in> set [''n'', ''no'', ''cancel'', ''q'', ''quit''] \<Longrightarrow>
   run_write agent st p (line # rest) = (Inr Cancelled, suggested agent st p)"
  by (auto simp add: run_write_def suggested_def initial_session_def Let_def)

lemma run_write_unknown:
  "py_lower (py_strip line) \<notin>
     set ['''', ''y'', ''yes'', ''accept'', ''n'', ''no'', ''cancel'', ''q'', ''quit'',
          ''r'', ''revise'', ''feedback'', ''c'', ''custom''] \<Longrightarrow>
   run_write agent st p (line # rest) = (Inr Cancelled, suggested agent st p)"
  by (simp add: run_write_def suggested_def initial_session_def Let_def)

lemma run_write_revise:
  "py_lower (py_strip line) \<in> set [''r'', ''revise'', ''feedback''] \<Longrightarrow>
   run_write agent st p (line # rest) =
     (case rest of
        [] \<Rightarrow> (Inl EOFError, suggested agent st p)
      | line2 # rest2 \<Rightarrow>
          (case rest2 of
             [] \<Rightarrow> (Inl EOFError, revised agent st p line2)
           | line3 # rest3 \<Rightarrow>
               if py_lower (py_strip line3) \<in> set ['''', ''y'', ''yes'']
               then (Inr Accepted,
                     continue_conversation agent revised_request (revised agent st p line2))
               else (Inr Cancelled, revised agent st p line2)))"
  by (auto simp add: run_write_def suggested_def revised_def initial_session_def Let_def
      split: list.splits)

lemma run_write_custom:
  "py_lower (py_strip line) \<in> set [''c'', ''custom''] \<Longrightarrow>
   run_write agent st p (line # rest) =
     (case rest of
        [] \<Rightarrow> (Inl EOFError, suggested agent st p)
      | line2 # rest2 \<Rightarrow>
          if py_strip line2 \<noteq> []
          then (Inr Accepted,
                continue_conversation agent (custom_request (py_strip line2))
                  (suggested agent st p))
          else (Inr Cancelled, suggested agent st p))"
  by (auto simp add: run_write_def suggested_def initial_session_def Let_def split: list.splits)

lemma requests_suggested [simp]: "requests (suggested agent st p) = [write_prompt p]"
  by (simp add: suggested_def initial_session_def)

lemma requests_revised [simp]:
  "requests (revised agent st p line2) = [write_prompt p, revise_request (py_strip line2)]"
  by (simp add: revised_def)

lemma commits_invoke_quiet:
  "commits_only_on_request agent \<Longrightarrow> \<not> is_execute_request t \<Longrightarrow>
   commits (invoke_agent agent t s) = commits s"
  by (simp add: invoke_agent_def Let_def commits_only_on_request_def)

lemma commits_continue_quiet:
  "commits_only_on_request agent \<Longrightarrow> \<not> is_execute_request t \<Longrightarrow>
   commits (continue_conversation agent t s) = commits s"
  by (simp add: continue_conversation_def Let_def commits_only_on_request_def)

lemma commits_suggested_quiet:
  "commits_only_on_request agent \<Longrightarrow> commits (suggested agent st p) = []"
  by (simp add: suggested_def commits_invoke_quiet initial_session_def)

lemma commits_revised_quiet:
  "commits_only_on_request agent \<Longrightarrow> commits (revised agent st p line2) = []"
  by (simp add: revised_def commits_continue_quiet commits_suggested_quiet)

lemma input_classes:
  obtains (accept) "u \<in> set ['''', ''y'', ''yes'', ''accept'']"
  | (cancel) "u \<in> set [''n'', ''no'', ''cancel'', ''q'', ''quit'']"
  | (revise) "u \<in> set [''r'', ''revise'', ''feedback'']"
  | (custom) "u \<in> set [''c'', ''custom'']"
  | (unknown) "u \<notin> set ['''', ''y'', ''yes'', ''accept'', ''n'', ''no'', ''cancel'', ''q'', ''quit'',
          ''r'', ''revise'', ''feedback'', ''c'', ''custom'']"
  by auto

text \<open>
  Every path at once: the route is \<open>Accepted\<close> exactly on an explicit affirmative, one
  execution request is sent on that route and none otherwise, and an agent that commits
  only on request has committed nothing when the route is not \<open>Accepted\<close>.
\<close>

lemma run_write_summary:
  "(fst (run_write agent st p stdin) = Inr Accepted \<longleftrightarrow> explicit_affirmative stdin)
   \<and> length (execute_requests (snd (run_write agent st p stdin))) =
       (if fst (run_write agent st p stdin) = Inr Accepted then 1 else 0)
   \<and> (commits_only_on_request agent \<longrightarrow>
        fst (run_write agent st p stdin) \<noteq> Inr Accepted \<longrightarrow>
        commits (snd (run_write agent st p stdin)) = [])"
proof (cases stdin)
  case Nil
  then show ?thesis
    by (simp add: run_write_eof explicit_affirmative_def execute_requests_def
        commits_suggested_quiet)
next
  case (Cons line rest)
  show ?thesis
  proof (cases "py_lower (py_strip line)" rule: input_classes)
    case accept
    then show ?thesis unfolding Cons
      by (simp add: run_write_accept explicit_affirmative_def execute_requests_def)
  next
    case cancel
    then have "\<not> explicit_affirmative (line # rest)"
      by (auto simp add: explicit_affirmative_def)
    with cancel show ?thesis unfolding Cons
      by (simp add: run_write_cancel execute_requests_def commits_suggested_quiet)
  next
    case revise
    then have "explicit_affirmative (line # rest) \<longleftrightarrow>
       (case rest of line2 # line3 # stdin3 \<Rightarrow> py_lower (py_strip line3) \<in> set ['''', ''y'', ''yes'']
            | _ \<Rightarrow> False)"
      by (auto simp add: explicit_affirmative_def)
    with revise show ?thesis unfolding Cons
      by (simp add: run_write_revise execute_requests_def commits_suggested_quiet
          commits_revised_quiet split: list.splits)
  next
    case custom
    then have "explicit_affirmative (line # rest) \<longleftrightarrow>
       (case rest of line2 # stdin2 \<Rightarrow> py_strip line2 \<noteq> [] | [] \<Rightarrow> False)"
      by (auto simp add: explicit_affirmative_def)
    with custom show ?thesis unfolding Cons
      by (simp add: run_write_custom execute_requests_def commits_suggested_quiet
          split: list.splits)
  next
    case unknown
    then have "\<not> explicit_affirmative (line # rest)"
      by (auto simp add: explicit_affirmative_def)
    with unknown show ?thesis unfolding Cons
      by (simp add: run_write_unknown execute_requests_def commits_suggested_quiet)
  qed
qed

lemma relay_agent_only_on_request: "commits_only_on_request relay_agent"
  by (auto simp add: commits_only_on_request_def relay_agent_def is_execute_request_def)

lemma relay_agent_one_commit: "one_commit_per_request relay_agent"
  by (auto simp add: one_commit_per_request_def relay_agent_def is_execute_request_def)

lemma relay_agent_relays: "relays_custom_message relay_agent"
  by (auto simp add: relays_custom_message_def relay_agent_only_on_request relay_agent_def
      custom_request_def accept_request_def revised_request_def startswith_def)

lemma commits_continue:
  "commits (continue_conversation agent t s) =
     commits s @ reply_commits (agent (agent_state s) (messages s @ [HumanMessage t]))"
  by (simp add: continue_conversation_def Let_def)

lemma commits_suggested:
  "commits (suggested agent st p) = reply_commits (agent st [HumanMessage (write_prompt p)])"
  by (simp add: suggested_def invoke_agent_def initial_session_def Let_def)

lemma eval_simps:
  "py_lower (py_strip ''r'') = ''r''" "py_lower (py_strip ''n'') = ''n''"
  "py_lower (py_strip ''y'') = ''y''" "py_lower (py_strip ''No'') = ''no''"
  "py_lower (py_strip '' YES '') = ''yes''" "py_lower (py_strip ''blah'') = ''blah''"
  "py_lower (py_strip ''c'') = ''c''" "py_lower (py_strip ''custom'') = ''custom''"
  by (simp_all add: py_string_defs)

section \<open>Commits need an explicit affirmative\<close>

text \<open>
  C1, as the code has it. \<open>run_write\<close> sends the agent an execution request only on
  the route \<open>Accepted\<close>, which it takes only on an explicit affirmative (accept, yes
  after a revision, or custom text that is not empty once stripped); on every path that
  ends \<open>Cancelled\<close> it sends none. \<open>create_commit_tool\<close> is called by the agent, so
  with an agent that commits only while it handles an execution request, no commit is
  made on a \<open>Cancelled\<close> path and every commit follows an explicit affirmative.
\<close>

theorem run_write_commit_needs_affirmative:
  "(fst (run_write agent st p stdin) = Inr Cancelled \<longrightarrow>
      execute_requests (snd (run_write agent st p stdin)) = [])
   \<and> (execute_requests (snd (run_write agent st p stdin)) \<noteq> [] \<longrightarrow>
      fst (run_write agent st p stdin) = Inr Accepted \<and> explicit_affirmative stdin)
   \<and> (commits_only_on_request agent \<longrightarrow>
      fst (run_write agent st p stdin) = Inr Cancelled \<longrightarrow>
      commits (snd (run_write agent st p stdin)) = [])
   \<and> (commits_only_on_request agent \<longrightarrow>
      commits (snd (run_write agent st p stdin)) \<noteq> [] \<longrightarrow>
      fst (run_write agent st p stdin) = Inr Accepted \<and> explicit_affirmative stdin)"
  using run_write_summary [of agent st p stdin]
  by (auto split: if_splits)

theorem run_write_commit_needs_affirmative_witness:
  "commits_only_on_request relay_agent
   \<and> fst (run_write relay_agent () ''.'' [''No'']) = Inr Cancelled
   \<and> execute_requests (snd (run_write relay_agent () ''.'' [''No''])) = []
   \<and> commits (snd (run_write relay_agent () ''.'' [''No''])) = []
   \<and> commits (snd (run_write relay_agent () ''.'' [''y''])) \<noteq> []
   \<and> fst (run_write relay_agent () ''.'' [''y'']) = Inr Accepted
   \<and> explicit_affirmative [''y'']"
proof -
  have c: "fst (run_write relay_agent () ''.'' [''No'']) = Inr Cancelled"
    by (simp add: run_write_cancel eval_simps)
  have a: "commits (snd (run_write relay_agent () ''.'' [''y''])) \<noteq> []"
    by (simp add: run_write_accept eval_simps commits_continue relay_agent_def)
  show ?thesis
    using run_write_commit_needs_affirmative [of relay_agent "()" "''.''" "[''No'']"]
          run_write_commit_needs_affirmative [of relay_agent "()" "''.''" "[''y'']"]
          relay_agent_only_on_request c a
    by simp
qed

text \<open>
  The claim C1 as stated fails: the agent holds \<open>create_commit_tool\<close> in every
  invocation, and only the prompt text asks it to wait. With an agent that commits its
  revision at once, the answers revise, feedback, no end \<open>Cancelled\<close> with a commit
  made.
\<close>

theorem run_write_commit_without_affirmative:
  "fst (run_write hasty_agent () ''.'' [''r'', ''shorter subject'', ''n'']) = Inr Cancelled
   \<and> commits (snd (run_write hasty_agent () ''.'' [''r'', ''shorter subject'', ''n'']))
       = [''fix(cli): shorter subject'']
   \<and> \<not> explicit_affirmative [''r'', ''shorter subject'', ''n'']"
  by (simp add: run_write_revise eval_simps revised_def commits_continue commits_suggested
      hasty_agent_def revise_request_def write_prompt_def startswith_def explicit_affirmative_def)

section \<open>Routing of the first answer\<close>

lemma literal_inputs:
  "line \<in> set ['''', ''y'', ''yes'', ''accept'', ''n'', ''no'', ''cancel'', ''q'', ''quit'', ''blah'']
   \<Longrightarrow> py_lower (py_strip line) = line"
  by (auto simp add: py_string_defs)

lemma one_commit_single:
  "one_commit_per_request agent \<Longrightarrow>
   length (reply_commits (agent st [HumanMessage t])) = (if is_execute_request t then 1 else 0)"
  unfolding one_commit_per_request_def using last_request_single by blast

lemma one_commit_snoc:
  "one_commit_per_request agent \<Longrightarrow>
   length (reply_commits (agent st (msgs @ [HumanMessage t])))
     = (if is_execute_request t then 1 else 0)"
  unfolding one_commit_per_request_def using last_request_snoc by blast

lemma length_commits_suggested:
  "one_commit_per_request agent \<Longrightarrow> commits (suggested agent st p) = []"
  using one_commit_single [of agent st "write_prompt p"] by (simp add: commits_suggested)

lemma length_commits_accept:
  "one_commit_per_request agent \<Longrightarrow>
   length (commits (continue_conversation agent accept_request (suggested agent st p))) = 1"
  by (simp add: commits_continue length_commits_suggested one_commit_snoc)

lemmas input_sets = accept_inputs_def cancel_inputs_def revise_inputs_def custom_inputs_def
  unrecognized_def

text \<open>
  C2, as the code has it. The first answer is stripped and lower-cased. An answer in
  \<open>""\<close>, \<open>y\<close>, \<open>yes\<close>, \<open>accept\<close> takes the route \<open>Accepted\<close> and sends the
  agent exactly one execution request; an answer in \<open>n\<close>, \<open>no\<close>, \<open>cancel\<close>,
  \<open>q\<close>, \<open>quit\<close>, or one that is not recognized (such as \<open>blah\<close>), takes the route
  \<open>Cancelled\<close> and sends none. With an agent that makes one commit per execution
  request and none otherwise, the commit is made once on \<open>Accepted\<close> and not at all on
  \<open>Cancelled\<close>.
\<close>

theorem run_write_first_answer:
  "(py_lower (py_strip line) \<in> set accept_inputs \<longrightarrow>
      fst (run_write agent st p (line # rest)) = Inr Accepted
      \<and> requests (snd (run_write agent st p (line # rest))) = [write_prompt p, accept_request]
      \<and> execute_requests (snd (run_write agent st p (line # rest))) = [accept_request])
   \<and> (py_lower (py_strip line) \<in> set cancel_inputs \<or> unrecognized (py_lower (py_strip line)) \<longrightarrow>
      fst (run_write agent st p (line # rest)) = Inr Cancelled
      \<and> requests (snd (run_write agent st p (line # rest))) = [write_prompt p]
      \<and> execute_requests (snd (run_write agent st p (line # rest))) = [])
   \<and> (line \<in> set ['''', ''y'', ''yes'', ''accept''] \<longrightarrow>
      fst (run_write agent st p (line # rest)) = Inr Accepted)
   \<and> (line \<in> set [''n'', ''no'', ''cancel'', ''q'', ''quit'', ''blah''] \<longrightarrow>
      fst (run_write agent st p (line # rest)) = Inr Cancelled)
   \<and> (one_commit_per_request agent \<longrightarrow>
      py_lower (py_strip line) \<in> set accept_inputs \<longrightarrow>
      length (commits (snd (run_write agent st p (line # rest)))) = 1)
   \<and> (one_commit_per_request agent \<longrightarrow>
      py_lower (py_strip line) \<in> set cancel_inputs \<or> unrecognized (py_lower (py_strip line)) \<longrightarrow>
      commits (snd (run_write agent st p (line # rest))) = [])"
proof -
  let ?u = "py_lower (py_strip line)"
  let ?run = "run_write agent st p (line # rest)"
  have acc_eq: "?run = (Inr Accepted, continue_conversation agent accept_request (suggested agent st p))"
    if "?u \<in> set accept_inputs"
    using that unfolding accept_inputs_def by (rule run_write_accept)
  have can_eq: "?run = (Inr Cancelled, suggested agent st p)"
    if d: "?u \<in> set cancel_inputs \<or> unrecognized ?u"
    using d
  proof
    assume "?u \<in> set cancel_inputs"
    then show ?thesis unfolding cancel_inputs_def by (rule run_write_cancel)
  next
    assume "unrecognized ?u"
    then have "?u \<notin>
      set ('''' # ''y'' # ''yes'' # ''accept'' # ''n'' # ''no'' # ''cancel'' # ''q'' # ''quit'' #
           ''r'' # ''revise'' # ''feedback'' # ''c'' # [''custom''])"
      unfolding input_sets append.simps .
    then show ?thesis by (rule run_write_unknown)
  qed
  have acc: "fst ?run = Inr Accepted \<and> requests (snd ?run) = [write_prompt p, accept_request]
      \<and> execute_requests (snd ?run) = [accept_request]"
    if "?u \<in> set accept_inputs"
    unfolding acc_eq [OF that] by (simp add: execute_requests_def)
  have can: "fst ?run = Inr Cancelled \<and> requests (snd ?run) = [write_prompt p]
      \<and> execute_requests (snd ?run) = []"
    if "?u \<in> set cancel_inputs \<or> unrecognized ?u"
    unfolding can_eq [OF that] by (simp add: execute_requests_def)
  have lit_acc: "fst ?run = Inr Accepted" if l: "line \<in> set ['''', ''y'', ''yes'', ''accept'']"
  proof -
    from l have "?u = line" by (intro literal_inputs) auto
    with l have "?u \<in> set accept_inputs" by (simp only: accept_inputs_def)
    then show ?thesis by (simp only: acc)
  qed
  have lit_can: "fst ?run = Inr Cancelled"
    if l: "line \<in> set [''n'', ''no'', ''cancel'', ''q'', ''quit'', ''blah'']"
  proof -
    from l have e: "?u = line" by (intro literal_inputs) auto
    from l consider "line \<in> set cancel_inputs" | "line = ''blah''"
      unfolding cancel_inputs_def by auto
    then have "?u \<in> set cancel_inputs \<or> unrecognized ?u"
    proof cases
      case 1
      then show ?thesis by (simp only: e simp_thms)
    next
      case 2
      have "unrecognized ''blah''" by (simp add: input_sets)
      then show ?thesis using e unfolding 2 by simp
    qed
    then show ?thesis by (simp only: can)
  qed
  have one: "length (commits (snd ?run)) = 1"
    if "one_commit_per_request agent" "?u \<in> set accept_inputs"
    unfolding acc_eq [OF that(2)] using that(1) by (simp add: length_commits_accept)
  have none: "commits (snd ?run) = []"
    if "one_commit_per_request agent" "?u \<in> set cancel_inputs \<or> unrecognized ?u"
    unfolding can_eq [OF that(2)] using that(1) by (simp add: length_commits_suggested)
  show ?thesis
  proof (intro conjI impI)
    assume "?u \<in> set accept_inputs"
    then show "fst ?run = Inr Accepted" "requests (snd ?run) = [write_prompt p, accept_request]"
      "execute_requests (snd ?run) = [accept_request]"
      by (simp_all only: acc)
  next
    assume "?u \<in> set cancel_inputs \<or> unrecognized ?u"
    then show "fst ?run = Inr Cancelled" "requests (snd ?run) = [write_prompt p]"
      "execute_requests (snd ?run) = []"
      by (simp_all only: can)
  next
    assume "line \<in> set ['''', ''y'', ''yes'', ''accept'']"
    then show "fst ?run = Inr Accepted" by (rule lit_acc)
  next
    assume "line \<in> set [''n'', ''no'', ''cancel'', ''q'', ''quit'', ''blah'']"
    then show "fst ?run = Inr Cancelled" by (rule lit_can)
  next
    assume "one_commit_per_request agent" "?u \<in> set accept_inputs"
    then show "length (commits (snd ?run)) = 1" by (rule one)
  next
    assume "one_commit_per_request agent" "?u \<in> set cancel_inputs \<or> unrecognized ?u"
    then show "commits (snd ?run) = []" by (rule none)
  qed
qed

theorem run_write_first_answer_witness:
  "one_commit_per_request relay_agent
   \<and> fst (run_write relay_agent () ''.'' ['' YES '']) = Inr Accepted
   \<and> requests (snd (run_write relay_agent () ''.'' ['' YES ''])) = [write_prompt ''.'', accept_request]
   \<and> length (commits (snd (run_write relay_agent () ''.'' ['' YES '']))) = 1
   \<and> fst (run_write relay_agent () ''.'' [''blah'']) = Inr Cancelled
   \<and> requests (snd (run_write relay_agent () ''.'' [''blah''])) = [write_prompt ''.'']
   \<and> commits (snd (run_write relay_agent () ''.'' [''blah''])) = []
   \<and> fst (run_write relay_agent () ''.'' [''accept'']) = Inr Accepted
   \<and> fst (run_write relay_agent () ''.'' [''quit'']) = Inr Cancelled"
proof -
  have a: "py_lower (py_strip '' YES '') \<in> set accept_inputs"
    by (simp add: eval_simps accept_inputs_def)
  have b: "unrecognized (py_lower (py_strip ''blah''))"
    by (simp add: eval_simps input_sets)
  show ?thesis
    using run_write_first_answer [of "'' YES ''" relay_agent "()" "''.''" "[]"]
          run_write_first_answer [of "''blah''" relay_agent "()" "''.''" "[]"]
          run_write_first_answer [of "''accept''" relay_agent "()" "''.''" "[]"]
          run_write_first_answer [of "''quit''" relay_agent "()" "''.''" "[]"]
          relay_agent_one_commit a b
    by simp
qed

text \<open>
  The claim C2 as stated fails: how often \<open>create_commit_tool\<close> runs on
  \<open>Accepted\<close> is the agent's choice. With an agent that answers without committing,
  the answer \<open>y\<close> ends \<open>Accepted\<close> with no commit made.
\<close>

theorem run_write_accepted_without_commit:
  "fst (run_write idle_agent () ''.'' [''y'']) = Inr Accepted
   \<and> commits (snd (run_write idle_agent () ''.'' [''y''])) = []"
  by (simp add: run_write_accept eval_simps commits_continue commits_suggested idle_agent_def)

section \<open>The custom message\<close>

lemma relays_only_on_request: "relays_custom_message agent \<Longrightarrow> commits_only_on_request agent"
  by (simp add: relays_custom_message_def)

lemma relays_custom_snoc:
  "relays_custom_message agent \<Longrightarrow>
   reply_commits (agent st (msgs @ [HumanMessage (custom_request m)])) = [m]"
  unfolding relays_custom_message_def using last_request_snoc by blast

text \<open>
  C3, as the code has it. After \<open>c\<close> or \<open>custom\<close> the text the user supplies is
  stripped. When the stripped text is not empty, the route is \<open>Accepted\<close> and the one
  request sent after the suggestion is \<open>Execute commit with this exact message: \<close>
  followed by the stripped text, which \<open>create_commit_tool\<close> passes to
  \<open>git commit -m\<close> unchanged; no new suggestion is asked for. When the stripped text is
  empty, the route is \<open>Cancelled\<close> and nothing is sent. With an agent that relays the
  message of a custom request, the commits made are the stripped text alone, or none.
\<close>

theorem run_write_custom_message:
  "py_lower (py_strip line) \<in> set [''c'', ''custom''] \<longrightarrow>
     (py_strip text \<noteq> [] \<longrightarrow>
        fst (run_write agent st p (line # text # rest)) = Inr Accepted
        \<and> requests (snd (run_write agent st p (line # text # rest)))
            = [write_prompt p, ''Execute commit with this exact message: '' @ py_strip text]
        \<and> snd (create_commit_tool git (py_strip text) p)
            = [Spawn [''git'', ''-C'', p, ''commit'', ''-m'', py_strip text]])
     \<and> (py_strip text = [] \<longrightarrow>
        fst (run_write agent st p (line # text # rest)) = Inr Cancelled
        \<and> requests (snd (run_write agent st p (line # text # rest))) = [write_prompt p])
     \<and> (relays_custom_message agent \<longrightarrow>
        commits (snd (run_write agent st p (line # text # rest)))
          = (if py_strip text \<noteq> [] then [py_strip text] else []))"
proof (intro impI conjI)
  assume u: "py_lower (py_strip line) \<in> set [''c'', ''custom'']"
  have eq: "run_write agent st p (line # text # rest) =
     (if py_strip text \<noteq> []
      then (Inr Accepted,
            continue_conversation agent (custom_request (py_strip text)) (suggested agent st p))
      else (Inr Cancelled, suggested agent st p))"
    using run_write_custom [OF u, of agent st p "text # rest"] by simp
  {
    assume ne: "py_strip text \<noteq> []"
    show "fst (run_write agent st p (line # text # rest)) = Inr Accepted"
      by (simp add: eq ne)
    show "requests (snd (run_write agent st p (line # text # rest)))
            = [write_prompt p, ''Execute commit with this exact message: '' @ py_strip text]"
      by (simp add: eq ne custom_request_def)
    have "py_strip (py_strip text) \<noteq> []" using ne by (simp add: py_strip_idem)
    then show "snd (create_commit_tool git (py_strip text) p)
            = [Spawn [''git'', ''-C'', p, ''commit'', ''-m'', py_strip text]]"
      using create_commit_tool_spawn [of "py_strip text" git p] by (simp add: py_strip_idem)
  }
  {
    assume e: "py_strip text = []"
    show "fst (run_write agent st p (line # text # rest)) = Inr Cancelled"
      by (simp add: eq e)
    show "requests (snd (run_write agent st p (line # text # rest))) = [write_prompt p]"
      by (simp add: eq e)
  }
  {
    assume r: "relays_custom_message agent"
    show "commits (snd (run_write agent st p (line # text # rest)))
          = (if py_strip text \<noteq> [] then [py_strip text] else [])"
      by (simp add: eq commits_continue commits_suggested_quiet [OF relays_only_on_request [OF r]]
          relays_custom_snoc [OF r])
  }
qed

theorem run_write_custom_message_witness:
  "relays_custom_message relay_agent
   \<and> fst (run_write relay_agent () ''.'' [''custom'', ''docs: fix typo'']) = Inr Accepted
   \<and> requests (snd (run_write relay_agent () ''.'' [''custom'', ''docs: fix typo'']))
       = [write_prompt ''.'', ''Execute commit with this exact message: docs: fix typo'']
   \<and> commits (snd (run_write relay_agent () ''.'' [''custom'', ''docs: fix typo'']))
       = [''docs: fix typo'']
   \<and> snd (create_commit_tool (\<lambda>argv. Exited 0 [] []) ''docs: fix typo'' ''.'')
       = [Spawn [''git'', ''-C'', ''.'', ''commit'', ''-m'', ''docs: fix typo'']]
   \<and> fst (run_write relay_agent () ''.'' [''c'', [], ''y'']) = Inr Cancelled
   \<and> commits (snd (run_write relay_agent () ''.'' [''c'', [], ''y''])) = []"
proof -
  have s: "py_strip ''docs: fix typo'' = ''docs: fix typo''"
    by (simp add: py_strip_def py_isspace_def)
  show ?thesis
    using run_write_custom_message
            [of "''custom''" "''docs: fix typo''" relay_agent "()" "''.''" "[]"
                "\<lambda>argv. Exited 0 [] []"]
          run_write_custom_message
            [of "''c''" "[]" relay_agent "()" "''.''" "[''y'']" "\<lambda>argv. Exited 0 [] []"]
          relay_agent_relays
    by (simp add: eval_simps s)
qed

text \<open>
  The claim C3 as stated fails: text of three spaces is not empty and ends
  \<open>Cancelled\<close>, and text with surrounding spaces reaches the commit without them.
\<close>

theorem run_write_custom_text_stripped:
  "fst (run_write relay_agent () ''.'' [''c'', ''   '']) = Inr Cancelled
   \<and> ''   '' \<noteq> []
   \<and> requests (snd (run_write relay_agent () ''.'' [''custom'', '' docs: fix typo '']))
       = [write_prompt ''.'', ''Execute commit with this exact message: docs: fix typo'']
   \<and> commits (snd (run_write relay_agent () ''.'' [''custom'', '' docs: fix typo '']))
       = [''docs: fix typo'']
   \<and> ''docs: fix typo'' \<noteq> '' docs: fix typo ''"
proof -
  have s: "py_strip '' docs: fix typo '' = ''docs: fix typo''" "py_strip ''   '' = []"
    by (simp_all add: py_strip_def py_isspace_def)
  have r: "requests (snd (run_write relay_agent () ''.'' [''custom'', '' docs: fix typo '']))
       = [write_prompt ''.'', custom_request ''docs: fix typo'']"
    by (simp add: run_write_custom eval_simps s)
  have c: "commits (snd (run_write relay_agent () ''.'' [''custom'', '' docs: fix typo '']))
       = [''docs: fix typo'']"
    by (simp add: run_write_custom eval_simps s commits_continue
        commits_suggested_quiet [OF relay_agent_only_on_request]
        relays_custom_snoc [OF relay_agent_relays])
  have n: "fst (run_write relay_agent () ''.'' [''c'', ''   '']) = Inr Cancelled"
    by (simp add: run_write_custom eval_simps s)
  show ?thesis
    using r c n by (simp add: custom_request_def)
qed

end
